theory Spec2Isabelle
  imports Complex_Main
begin

section \<open>Errors, logging and Python primitives\<close>

text \<open>
  The exceptions the modelled code can raise. A function of the source that may raise
  returns \<open>py_error + 'a\<close> (\<open>Inl\<close> the exception, \<open>Inr\<close> the value returned).
\<close>

datatype py_error = IndexError | ZeroDivisionError

text \<open>
  Python list indexing \<open>xs[i]\<close>: a negative index counts from the end of the list, an
  index outside the list raises \<open>IndexError\<close>.
\<close>

definition py_index :: "'a list \<Rightarrow> int \<Rightarrow> py_error + 'a" where
  "py_index xs i =
     (let k = (if i < 0 then i + int (length xs) else i)
      in if k < 0 \<or> int (length xs) \<le> k then Inl IndexError else Inr (xs ! nat k))"

text \<open>
  Python true division \<open>a / b\<close> on numbers: \<open>ZeroDivisionError\<close> on a zero divisor.
  Python floats are modelled by the real numbers: the model computes the exact quotient
  where the program computes the correctly rounded one.
\<close>

definition py_truediv :: "real \<Rightarrow> real \<Rightarrow> py_error + real" where
  "py_truediv a b = (if b = 0 then Inl ZeroDivisionError else Inr (a / b))"

text \<open>
  The module logger: a function that logs returns the list of the warnings it emitted, in
  order, next to its outcome.
\<close>

type_synonym 'a logged = "string list \<times> (py_error + 'a)"

section \<open>Data model of the detection metrics (map.py, metrics.py)\<close>

text \<open>
  Modelled from the spec: the enumeration \<open>MatchingMode\<close> of the matching module (one of
  center distance, 3D IoU, plane distance), with its members named as \<open>metrics.py\<close>
  names them: \<open>CENTERDISTANCE\<close>, \<open>IOU3d\<close> and \<open>PLANEDISTANCE\<close>.
\<close>

datatype MatchingMode = CENTERDISTANCE | IOU3d | PLANEDISTANCE

text \<open>
  Modelled from the spec: the class \<open>DynamicObjectWithResult\<close> of the object-result
  module, a predicted object paired with its match and a label-correctness flag. The
  metrics read one attribute of it, \<open>is_label_correct\<close>. The record is extensible, so
  an object may carry more.
\<close>

record DynamicObjectWithResult =
  is_label_correct :: bool

section \<open>Ap._calculate_tp_fp\<close>

text \<open>
  One iteration of \<open>for i in range(1, len(object_results))\<close>. The lists have the length
  of \<open>object_results\<close> and \<open>1 \<le> i < len(object_results)\<close>, so every index is in range.
\<close>

definition tp_fp_step ::
  "'a DynamicObjectWithResult_scheme list \<Rightarrow> nat \<Rightarrow> int list \<times> int list \<Rightarrow> int list \<times> int list"
where
  "tp_fp_step object_results i acc =
     (case acc of (tp_list, fp_list) \<Rightarrow>
        let tp_list' =
              (if is_label_correct (object_results ! i)
               then tp_list[i := tp_list ! (i - 1) + 1]
               else tp_list[i := tp_list ! (i - 1)])
        in (tp_list', fp_list[i := int i + 1 - tp_list' ! i]))"

definition calculate_tp_fp ::
  "'a DynamicObjectWithResult_scheme list \<Rightarrow> int \<Rightarrow> (int list \<times> int list) logged"
where
  "calculate_tp_fp object_results ground_truth_objects_num =
     (if length object_results = 0 \<and> ground_truth_objects_num \<noteq> 0
      then ([''The size of object_results is 0''], Inr ([], []))
      else
        let object_results_num = length object_results;
            tp_list = replicate object_results_num (0::int);
            fp_list = replicate object_results_num (0::int)
        in (case py_index object_results 0 of
              Inl e \<Rightarrow> ([], Inl e)
            | Inr first \<Rightarrow>
                let init =
                      (if is_label_correct first
                       then (tp_list[0 := 1], fp_list[0 := 0])
                       else (tp_list[0 := 0], fp_list[0 := 1]))
                in ([], Inr (fold (tp_fp_step object_results)
                                  [1..<length object_results] init))))"

section \<open>Ap.get_precision_recall_list\<close>

text \<open>
  The method reads \<open>self.tp_list\<close> and \<open>self.ground_truth_objects_num\<close>; they are the
  two arguments here. The loop runs over \<open>range(len(precisions_list))\<close>, and the three
  lists have the length of \<open>tp_list\<close>, so every index is in range. Both divisions go
  through \<open>py_truediv\<close>, so that a zero divisor would show as \<open>Inl ZeroDivisionError\<close>.
\<close>

fun precision_recall_loop ::
  "int list \<Rightarrow> int \<Rightarrow> nat list \<Rightarrow> real list \<times> real list \<Rightarrow> py_error + real list \<times> real list"
where
  "precision_recall_loop tp_list ground_truth_objects_num [] acc = Inr acc"
| "precision_recall_loop tp_list ground_truth_objects_num (i # rest) (precisions_list, recalls_list) =
     (case py_truediv (real_of_int (tp_list ! i)) (real (i + 1)) of
        Inl e \<Rightarrow> Inl e
      | Inr p \<Rightarrow>
          if ground_truth_objects_num > 0
          then (case py_truediv (real_of_int (tp_list ! i)) (real_of_int ground_truth_objects_num) of
                  Inl e \<Rightarrow> Inl e
                | Inr r \<Rightarrow>
                    precision_recall_loop tp_list ground_truth_objects_num rest
                      (precisions_list[i := p], recalls_list[i := r]))
          else precision_recall_loop tp_list ground_truth_objects_num rest
                 (precisions_list[i := p], recalls_list[i := 0]))"

definition get_precision_recall_list ::
  "int list \<Rightarrow> int \<Rightarrow> py_error + real list \<times> real list"
where
  "get_precision_recall_list tp_list ground_truth_objects_num =
     (let precisions_list = replicate (length tp_list) (0::real);
          recalls_list = replicate (length tp_list) (0::real)
      in precision_recall_loop tp_list ground_truth_objects_num
           [0..<length precisions_list] (precisions_list, recalls_list))"

section \<open>Ap._calculate_ap\<close>

text \<open>
  The loop \<open>for i in reversed(range(len(recall_list) - 1))\<close>: it reads
  \<open>precision_list[i]\<close>, which is out of range when \<open>precision_list\<close> is the shorter
  list, and \<open>recall_list[i]\<close>, which the range keeps inside \<open>recall_list\<close>. The list
  \<open>max_precision_list\<close> starts with one element and only grows, so
  \<open>max_precision_list[-1]\<close> is its last element.
\<close>

fun envelope_loop ::
  "real list \<Rightarrow> real list \<Rightarrow> nat list \<Rightarrow> real list \<times> real list \<Rightarrow> py_error + real list \<times> real list"
where
  "envelope_loop precision_list recall_list [] acc = Inr acc"
| "envelope_loop precision_list recall_list (i # rest) (max_precision_list, max_precision_recall_list) =
     (case py_index precision_list (int i) of
        Inl e \<Rightarrow> Inl e
      | Inr p \<Rightarrow>
          if p > last max_precision_list
          then envelope_loop precision_list recall_list rest
                 (max_precision_list @ [p], max_precision_recall_list @ [recall_list ! i])
          else envelope_loop precision_list recall_list rest
                 (max_precision_list, max_precision_recall_list))"

definition calculate_ap :: "real list \<Rightarrow> real list \<Rightarrow> py_error + real" where
  "calculate_ap precision_list recall_list =
     (if length precision_list = 0 then Inr 0
      else
        case py_index precision_list (- 1) of
          Inl e \<Rightarrow> Inl e
        | Inr p_last \<Rightarrow>
           (case py_index recall_list (- 1) of
              Inl e \<Rightarrow> Inl e
            | Inr r_last \<Rightarrow>
               (case envelope_loop precision_list recall_list
                       (rev [0..<length recall_list - 1]) ([p_last], [r_last]) of
                  Inl e \<Rightarrow> Inl e
                | Inr (mp, mr) \<Rightarrow>
                    let max_precision_list = mp @ [last mp];
                        max_precision_recall_list = mr @ [0]
                    in Inr (fold (\<lambda>i ap. ap + max_precision_list ! i *
                                    (max_precision_recall_list ! i - max_precision_recall_list ! (i + 1)))
                                 [0..<length max_precision_list - 1] 0))))"

section \<open>Ap.__init__\<close>

record 'l MapConfig =
  target_labels :: "'l list"
  matching_mode :: MatchingMode
  matching_threshold :: real

record 'l Ap =
  target_labels :: "'l list"
  matching_mode :: MatchingMode
  matching_threshold :: real
  ground_truth_objects_num :: int
  tp_list :: "int list"
  fp_list :: "int list"
  ap :: real

text \<open>
  The two filters \<open>filter_tp_objects\<close> and \<open>filter_ground_truth_objects\<close> belong to the
  matching module, outside the files modelled here: they are parameters, and every
  theorem below holds for all of them. \<open>'l\<close> is the label type (\<open>AutowareLabel\<close>) and
  \<open>'g\<close> the ground-truth object type (\<open>DynamicObject\<close>).
\<close>

text \<open>
  A parameter or local variable of the source that has the name of an attribute carries
  a prime here (\<open>target_labels'\<close> is the parameter, \<open>target_labels\<close> the attribute).
\<close>

definition Ap_init ::
  "('r DynamicObjectWithResult_scheme list \<Rightarrow> 'l list \<Rightarrow> MatchingMode \<Rightarrow> real
      \<Rightarrow> 'r DynamicObjectWithResult_scheme list) \<Rightarrow>
   ('g list \<Rightarrow> 'l list \<Rightarrow> 'g list) \<Rightarrow>
   'r DynamicObjectWithResult_scheme list \<Rightarrow> 'g list \<Rightarrow> 'l list \<Rightarrow> MatchingMode \<Rightarrow> real \<Rightarrow>
   'l Ap logged"
where
  "Ap_init filter_tp_objects filter_ground_truth_objects
       object_results ground_truth_objects target_labels' matching_mode' matching_threshold' =
     (let filtered_object_results =
            filter_tp_objects object_results target_labels' matching_mode' matching_threshold';
          filtered_ground_truth_objects =
            filter_ground_truth_objects ground_truth_objects target_labels';
          ground_truth_objects_num' = int (length filtered_ground_truth_objects)
      in case calculate_tp_fp filtered_object_results ground_truth_objects_num' of
           (msgs, Inl e) \<Rightarrow> (msgs, Inl e)
         | (msgs, Inr (tp_list', fp_list')) \<Rightarrow>
            (case get_precision_recall_list tp_list' ground_truth_objects_num' of
               Inl e \<Rightarrow> (msgs, Inl e)
             | Inr (precision_list, recall_list) \<Rightarrow>
                (case calculate_ap precision_list recall_list of
                   Inl e \<Rightarrow> (msgs, Inl e)
                 | Inr ap' \<Rightarrow>
                     (msgs, Inr \<lparr>Ap.target_labels = target_labels',
                                Ap.matching_mode = matching_mode',
                                Ap.matching_threshold = matching_threshold',
                                ground_truth_objects_num = ground_truth_objects_num',
                                tp_list = tp_list', fp_list = fp_list', ap = ap'\<rparr>))))"

section \<open>Map.__init__\<close>

text \<open>
  A \<open>Map\<close> object whose constructor returned early has none of its attributes set: each
  attribute is optional, \<open>None\<close> when the constructor never assigned it. The attributes
  \<open>map\<close> and (below) \<open>maps\<close> are named \<open>map_val\<close> and \<open>maps_val\<close> here.
\<close>

record 'l Map =
  map_config :: "'l MapConfig option"
  aps :: "'l Ap list option"
  map_val :: "real option"

text \<open>The loop \<open>for target_label in self.map_config.target_labels\<close>, appending to \<open>self.aps\<close>.\<close>

fun aps_loop ::
  "('r DynamicObjectWithResult_scheme list \<Rightarrow> 'l list \<Rightarrow> MatchingMode \<Rightarrow> real
      \<Rightarrow> 'r DynamicObjectWithResult_scheme list) \<Rightarrow>
   ('g list \<Rightarrow> 'l list \<Rightarrow> 'g list) \<Rightarrow>
   'r DynamicObjectWithResult_scheme list \<Rightarrow> 'g list \<Rightarrow> MatchingMode \<Rightarrow> real \<Rightarrow>
   'l list \<Rightarrow> 'l Ap list \<Rightarrow> 'l Ap list logged"
where
  "aps_loop ftp fgt object_results ground_truth_objects matching_mode' matching_threshold' [] aps' =
     ([], Inr aps')"
| "aps_loop ftp fgt object_results ground_truth_objects matching_mode' matching_threshold'
       (target_label # rest) aps' =
     (case Ap_init ftp fgt object_results ground_truth_objects [target_label]
             matching_mode' matching_threshold' of
        (msgs, Inl e) \<Rightarrow> (msgs, Inl e)
      | (msgs, Inr ap') \<Rightarrow>
         (case aps_loop ftp fgt object_results ground_truth_objects matching_mode'
                 matching_threshold' rest (aps' @ [ap']) of
            (msgs', r) \<Rightarrow> (msgs @ msgs', r)))"

definition Map_init ::
  "('r DynamicObjectWithResult_scheme list \<Rightarrow> 'l list \<Rightarrow> MatchingMode \<Rightarrow> real
      \<Rightarrow> 'r DynamicObjectWithResult_scheme list) \<Rightarrow>
   ('g list \<Rightarrow> 'l list \<Rightarrow> 'g list) \<Rightarrow>
   'r DynamicObjectWithResult_scheme list \<Rightarrow> 'g list \<Rightarrow> 'l list \<Rightarrow> MatchingMode \<Rightarrow> real \<Rightarrow>
   'l Map logged"
where
  "Map_init ftp fgt object_results ground_truth_objects target_labels' matching_mode'
       matching_threshold' =
     (if target_labels' = []
      then ([''target_labels is empty ([])''],
            Inr \<lparr>map_config = None, aps = None, map_val = None\<rparr>)
      else
        let map_config' = \<lparr>MapConfig.target_labels = target_labels',
                           MapConfig.matching_mode = matching_mode',
                           MapConfig.matching_threshold = matching_threshold'\<rparr>
        in case aps_loop ftp fgt object_results ground_truth_objects matching_mode'
                  matching_threshold' (MapConfig.target_labels map_config') [] of
             (msgs, Inl e) \<Rightarrow> (msgs, Inl e)
           | (msgs, Inr aps') \<Rightarrow>
               let sum_ap = fold (\<lambda>a sum_ap. sum_ap + Ap.ap a) aps' 0
               in (case py_truediv sum_ap (real (length target_labels')) of
                     Inl e \<Rightarrow> (msgs, Inl e)
                   | Inr m \<Rightarrow>
                       (msgs, Inr \<lparr>map_config = Some map_config', aps = Some aps',
                                  map_val = Some m\<rparr>)))"

section \<open>MetricsScore (metrics.py)\<close>

text \<open>
  Modelled from the spec: \<open>MetricsScoreConfig\<close>, the configuration class of the metrics
  (its module is not among the files modelled). It holds the target labels and, for each
  of the three matching modes, a list of zero or more thresholds; the attribute names are
  the ones \<open>MetricsScore\<close> reads.
\<close>

record 'l MetricsScoreConfig =
  target_labels :: "'l list"
  map_thresholds_center_distance :: "real list"
  map_thresholds_iou :: "real list"
  map_thresholds_plane_distance :: "real list"

record 'l MetricsScore =
  config :: "'l MetricsScoreConfig"
  maps_val :: "'l Map list"

definition MetricsScore_init :: "'l MetricsScoreConfig \<Rightarrow> 'l MetricsScore" where
  "MetricsScore_init metrics_config = \<lparr>config = metrics_config, maps_val = []\<rparr>"

text \<open>
  A method that mutates \<open>self\<close> returns the object after the call, the warnings logged
  and the exception raised, if any. An exception leaves the object as it was when the
  exception was raised: what was appended before stays appended.
\<close>

type_synonym 'l effect = "'l MetricsScore \<times> string list \<times> py_error option"

definition and_then :: "'l effect \<Rightarrow> ('l MetricsScore \<Rightarrow> 'l effect) \<Rightarrow> 'l effect" where
  "and_then first next_stmt =
     (case first of
        (self, msgs, Some e) \<Rightarrow> (self, msgs, Some e)
      | (self, msgs, None) \<Rightarrow>
         (case next_stmt self of (self', msgs', r) \<Rightarrow> (self', msgs @ msgs', r)))"

text \<open>
  One of the three loops of \<open>_evaluation_detection\<close>:
  \<open>for threshold_ in thresholds: map_ = Map(...); self.maps.append(map_)\<close>; the loop
  variables \<open>threshold_\<close>, \<open>map_\<close> and \<open>ap_\<close> of the source are \<open>threshold'\<close>, \<open>map'\<close> and \<open>ap'\<close>.
\<close>

fun maps_loop ::
  "('r DynamicObjectWithResult_scheme list \<Rightarrow> 'l list \<Rightarrow> MatchingMode \<Rightarrow> real
      \<Rightarrow> 'r DynamicObjectWithResult_scheme list) \<Rightarrow>
   ('g list \<Rightarrow> 'l list \<Rightarrow> 'g list) \<Rightarrow>
   'r DynamicObjectWithResult_scheme list \<Rightarrow> 'g list \<Rightarrow> MatchingMode \<Rightarrow> real list \<Rightarrow>
   'l MetricsScore \<Rightarrow> 'l effect"
where
  "maps_loop ftp fgt object_results ground_truth_objects mode [] self = (self, [], None)"
| "maps_loop ftp fgt object_results ground_truth_objects mode (threshold' # rest) self =
     (case Map_init ftp fgt object_results ground_truth_objects
             (MetricsScoreConfig.target_labels (config self)) mode threshold' of
        (msgs, Inl e) \<Rightarrow> (self, msgs, Some e)
      | (msgs, Inr map') \<Rightarrow>
         (case maps_loop ftp fgt object_results ground_truth_objects mode rest
                 (self\<lparr>maps_val := maps_val self @ [map']\<rparr>) of
            (self', msgs', r) \<Rightarrow> (self', msgs @ msgs', r)))"

definition evaluation_detection ::
  "('r DynamicObjectWithResult_scheme list \<Rightarrow> 'l list \<Rightarrow> MatchingMode \<Rightarrow> real
      \<Rightarrow> 'r DynamicObjectWithResult_scheme list) \<Rightarrow>
   ('g list \<Rightarrow> 'l list \<Rightarrow> 'g list) \<Rightarrow>
   'l MetricsScore \<Rightarrow> 'r DynamicObjectWithResult_scheme list \<Rightarrow> 'g list \<Rightarrow> 'l effect"
where
  "evaluation_detection ftp fgt self object_results ground_truth_objects =
     and_then
       (and_then
          (if map_thresholds_center_distance (config self) \<noteq> []
           then maps_loop ftp fgt object_results ground_truth_objects CENTERDISTANCE
                  (map_thresholds_center_distance (config self)) self
           else (self, [], None))
          (\<lambda>self.
             if map_thresholds_iou (config self) \<noteq> []
             then maps_loop ftp fgt object_results ground_truth_objects IOU3d
                    (map_thresholds_iou (config self)) self
             else (self, [], None)))
       (\<lambda>self.
          if map_thresholds_center_distance (config self) \<noteq> []
          then maps_loop ftp fgt object_results ground_truth_objects PLANEDISTANCE
                 (map_thresholds_plane_distance (config self)) self
          else (self, [], None))"

definition evaluation_tracking ::
  "'l MetricsScore \<Rightarrow> 'r DynamicObjectWithResult_scheme list \<Rightarrow> 'l effect" where
  "evaluation_tracking self object_results = (self, [], None)"

definition evaluation_prediction ::
  "'l MetricsScore \<Rightarrow> 'r DynamicObjectWithResult_scheme list \<Rightarrow> 'l effect" where
  "evaluation_prediction self object_results = (self, [], None)"

definition evaluate ::
  "('r DynamicObjectWithResult_scheme list \<Rightarrow> 'l list \<Rightarrow> MatchingMode \<Rightarrow> real
      \<Rightarrow> 'r DynamicObjectWithResult_scheme list) \<Rightarrow>
   ('g list \<Rightarrow> 'l list \<Rightarrow> 'g list) \<Rightarrow>
   'l MetricsScore \<Rightarrow> 'r DynamicObjectWithResult_scheme list \<Rightarrow> 'g list \<Rightarrow> 'l effect"
where
  "evaluate ftp fgt self object_results ground_truth_objects =
     and_then
       (and_then
          (evaluation_detection ftp fgt self object_results ground_truth_objects)
          (\<lambda>self. evaluation_tracking self object_results))
       (\<lambda>self. evaluation_prediction self object_results)"

text \<open>
  Calling \<open>evaluate\<close> several times on the same object, once per pair of arguments of
  the list, in order. A caller that catches an exception of one call still holds the
  object, so the calls go on with the object as that exception left it.
\<close>

fun evaluate_calls ::
  "('r DynamicObjectWithResult_scheme list \<Rightarrow> 'l list \<Rightarrow> MatchingMode \<Rightarrow> real
      \<Rightarrow> 'r DynamicObjectWithResult_scheme list) \<Rightarrow>
   ('g list \<Rightarrow> 'l list \<Rightarrow> 'g list) \<Rightarrow>
   'l MetricsScore \<Rightarrow> ('r DynamicObjectWithResult_scheme list \<times> 'g list) list \<Rightarrow> 'l MetricsScore"
where
  "evaluate_calls ftp fgt self [] = self"
| "evaluate_calls ftp fgt self ((object_results, ground_truth_objects) # calls) =
     evaluate_calls ftp fgt
       (fst (evaluate ftp fgt self object_results ground_truth_objects)) calls"

section \<open>PassFailResult.get_tp_fp_object_results (perception_pass_fail_result.py)\<close>

text \<open>
  Modelled from the spec: the pass/fail configuration \<open>PerceptionPassFailConfig\<close> (its
  module is not among the files modelled), with the four attributes the method reads.
  \<open>'m\<close> is the matching mode type of this package and \<open>'t\<close> the type of the threshold
  list; the method only hands them on.
\<close>

record ('l, 'm, 't) PerceptionPassFailConfig =
  target_labels :: "'l list"
  matching_mode :: 'm
  matching_threshold_list :: 't
  leave_only_critical_fp :: bool

text \<open>
  Of \<open>self\<close> the method reads \<open>frame_pass_fail_config\<close> only, so the record of
  \<open>PassFailResult\<close> has this one attribute and is extensible.
\<close>

record ('l, 'm, 't) PassFailResult =
  frame_pass_fail_config :: "('l, 'm, 't) PerceptionPassFailConfig"

text \<open>
  Modelled from the spec: the class \<open>DynamicObjectWithPerceptionResult\<close>, a predicted
  object paired with zero or one ground-truth object. The method reads its attribute
  \<open>ground_truth_object\<close>, which is \<open>None\<close> for a result matched with no ground truth.
\<close>

record 'g DynamicObjectWithPerceptionResult =
  ground_truth_object :: "'g option"

text \<open>
  Python's \<open>x in xs\<close> on a list: some element equals \<open>x\<close>. The elements of the critical
  list are objects, the left operand may be \<open>None\<close>, which equals no object.
\<close>

definition py_in :: "'g option \<Rightarrow> 'g list \<Rightarrow> bool" where
  "py_in x xs = (x \<in> set (map Some xs))"

text \<open>The loop \<open>for fp_object_result in fp_object_results\<close> with its \<open>append\<close>.\<close>

fun critical_fp_loop ::
  "'g list option \<Rightarrow> ('g, 'a) DynamicObjectWithPerceptionResult_scheme list \<Rightarrow>
   ('g, 'a) DynamicObjectWithPerceptionResult_scheme list \<Rightarrow>
   ('g, 'a) DynamicObjectWithPerceptionResult_scheme list"
where
  "critical_fp_loop critical_ground_truth_objects [] fp_critical_object_results =
     fp_critical_object_results"
| "critical_fp_loop critical_ground_truth_objects (fp_object_result # rest)
       fp_critical_object_results =
     (if (case critical_ground_truth_objects of
            None \<Rightarrow> False
          | Some objs \<Rightarrow> py_in (ground_truth_object fp_object_result) objs)
      then critical_fp_loop critical_ground_truth_objects rest
             (fp_critical_object_results @ [fp_object_result])
      else critical_fp_loop critical_ground_truth_objects rest fp_critical_object_results)"

text \<open>
  \<open>divide_tp_fp_objects\<close> belongs to the matching module: it is a parameter, the first
  argument here.
\<close>

definition get_tp_fp_object_results ::
  "(('g, 'a) DynamicObjectWithPerceptionResult_scheme list \<Rightarrow> 'l list \<Rightarrow> 'm \<Rightarrow> 't \<Rightarrow>
      ('g, 'a) DynamicObjectWithPerceptionResult_scheme list \<times>
      ('g, 'a) DynamicObjectWithPerceptionResult_scheme list) \<Rightarrow>
   ('l, 'm, 't, 'b) PassFailResult_scheme \<Rightarrow>
   ('g, 'a) DynamicObjectWithPerceptionResult_scheme list \<Rightarrow> 'g list option \<Rightarrow>
   ('g, 'a) DynamicObjectWithPerceptionResult_scheme list \<times>
   ('g, 'a) DynamicObjectWithPerceptionResult_scheme list"
where
  "get_tp_fp_object_results divide_tp_fp_objects self object_results
       critical_ground_truth_objects =
     (case divide_tp_fp_objects object_results
             (PerceptionPassFailConfig.target_labels (frame_pass_fail_config self))
             (PerceptionPassFailConfig.matching_mode (frame_pass_fail_config self))
             (matching_threshold_list (frame_pass_fail_config self)) of
        (tp_object_results, fp_object_results) \<Rightarrow>
          if \<not> leave_only_critical_fp (frame_pass_fail_config self)
          then (tp_object_results, fp_object_results)
          else (tp_object_results,
                critical_fp_loop critical_ground_truth_objects fp_object_results []))"

section \<open>Specification-side definitions\<close>

text \<open>
  The number of object results at positions \<open>0..i\<close> (inclusive) whose label is correct,
  as the specification words the cumulative true-positive count.
\<close>

definition correct_upto :: "'a DynamicObjectWithResult_scheme list \<Rightarrow> nat \<Rightarrow> int" where
  "correct_upto object_results i =
     int (length (filter is_label_correct (take (Suc i) object_results)))"

text \<open>
  The loop invariant of \<open>_calculate_tp_fp\<close> after the indices below \<open>k\<close> are written.
\<close>

definition tp_fp_inv ::
  "'a DynamicObjectWithResult_scheme list \<Rightarrow> nat \<Rightarrow> int list \<times> int list \<Rightarrow> bool" where
  "tp_fp_inv rs k acc =
     (length (fst acc) = length rs \<and> length (snd acc) = length rs \<and>
      (\<forall>j<k. fst acc ! j = correct_upto rs j \<and> snd acc ! j = int j + 1 - fst acc ! j))"

text \<open>
  The interpolated-precision envelope in the specification's words. The samples are the
  pairs (precision, recall) in rank order. The walk starts from the last sample and goes
  backward over the others; a sample whose precision exceeds the precision of the last
  envelope point is appended to the envelope. The envelope is closed by a point that
  repeats the last envelope precision at recall 0. The area is the sum, over consecutive
  envelope points \<open>k\<close> and \<open>k + 1\<close>, of the precision at \<open>k\<close> times the recall at \<open>k\<close>
  minus the recall at \<open>k + 1\<close>.
\<close>

fun envelope_walk :: "(real \<times> real) list \<Rightarrow> (real \<times> real) list \<Rightarrow> (real \<times> real) list" where
  "envelope_walk [] envelope = envelope"
| "envelope_walk ((p, r) # samples) envelope =
     envelope_walk samples (if p > fst (last envelope) then envelope @ [(p, r)] else envelope)"

definition interpolated_envelope :: "(real \<times> real) list \<Rightarrow> (real \<times> real) list" where
  "interpolated_envelope samples =
     (let backward = rev samples;
          envelope = envelope_walk (tl backward) [hd backward]
      in envelope @ [(fst (last envelope), 0)])"

definition envelope_area :: "(real \<times> real) list \<Rightarrow> real" where
  "envelope_area envelope =
     sum_list (map (\<lambda>k. fst (envelope ! k) * (snd (envelope ! k) - snd (envelope ! (k + 1))))
                   [0..<length envelope - 1])"

text \<open>
  Example collaborators, for evaluating the constructors on concrete inputs: an object
  result carries its predicted label in the extension of its record, a ground-truth
  object is its label, and each filter keeps the objects whose label is a target label.
\<close>

definition example_filter_tp_objects ::
  "nat DynamicObjectWithResult_scheme list \<Rightarrow> nat list \<Rightarrow> MatchingMode \<Rightarrow> real \<Rightarrow>
   nat DynamicObjectWithResult_scheme list" where
  "example_filter_tp_objects object_results labels mode threshold =
     filter (\<lambda>r. DynamicObjectWithResult.more r \<in> set labels) object_results"

definition example_filter_ground_truth_objects :: "nat list \<Rightarrow> nat list \<Rightarrow> nat list" where
  "example_filter_ground_truth_objects objects labels = filter (\<lambda>g. g \<in> set labels) objects"

text \<open>
  Two devices of the proofs about \<open>MetricsScore\<close>. \<open>maps_built\<close> is what one loop of
  \<open>_evaluation_detection\<close> builds (the maps, the warnings and the exception, if any), as
  a function of the target labels, apart from the object the maps are appended to.
  \<open>appends_only\<close> says of a method that it leaves the configuration alone and appends to
  \<open>maps\<close> a list that depends on the configuration only, not on the maps already stored.
\<close>

fun maps_built ::
  "('r DynamicObjectWithResult_scheme list \<Rightarrow> 'l list \<Rightarrow> MatchingMode \<Rightarrow> real
      \<Rightarrow> 'r DynamicObjectWithResult_scheme list) \<Rightarrow>
   ('g list \<Rightarrow> 'l list \<Rightarrow> 'g list) \<Rightarrow>
   'r DynamicObjectWithResult_scheme list \<Rightarrow> 'g list \<Rightarrow> 'l list \<Rightarrow> MatchingMode \<Rightarrow> real list \<Rightarrow>
   'l Map list \<times> string list \<times> py_error option"
where
  "maps_built ftp fgt ors gts labels mode [] = ([], [], None)"
| "maps_built ftp fgt ors gts labels mode (t # ts) =
     (case Map_init ftp fgt ors gts labels mode t of
        (msgs, Inl e) \<Rightarrow> ([], msgs, Some e)
      | (msgs, Inr m) \<Rightarrow>
         (case maps_built ftp fgt ors gts labels mode ts of
            (ms, msgs', r) \<Rightarrow> (m # ms, msgs @ msgs', r)))"

definition appends_only :: "('l MetricsScore \<Rightarrow> 'l effect) \<Rightarrow> bool" where
  "appends_only f =
     (\<exists>g h. \<forall>self. f self = (self\<lparr>maps_val := maps_val self @ g (config self)\<rparr>, h (config self)))"

section \<open>The TP/FP accumulator\<close>

lemma correct_upto_Suc:
  "Suc j < length rs \<Longrightarrow>
   correct_upto rs (Suc j) = correct_upto rs j + (if is_label_correct (rs ! Suc j) then 1 else 0)"
  by (simp add: correct_upto_def take_Suc_conv_app_nth [of "Suc j"])

lemma correct_upto_0:
  "rs \<noteq> [] \<Longrightarrow> correct_upto rs 0 = (if is_label_correct (rs ! 0) then 1 else 0)"
  by (cases rs) (simp_all add: correct_upto_def)

lemma correct_upto_mono:
  assumes "i \<le> j"
  shows "correct_upto rs i \<le> correct_upto rs j"
proof -
  obtain d where j: "j = i + d" using assms by (auto simp: le_iff_add)
  have "take (Suc j) rs = take (Suc i) rs @ take d (drop (Suc i) rs)"
    unfolding j by (metis add_Suc take_add)
  then show ?thesis by (simp add: correct_upto_def)
qed

lemma tp_fp_step_inv:
  assumes "tp_fp_inv rs k acc" "0 < k" "k < length rs"
  shows "tp_fp_inv rs (Suc k) (tp_fp_step rs k acc)"
proof -
  obtain tp fp where acc: "acc = (tp, fp)" by (cases acc)
  from assms(2) obtain k' where k: "k = Suc k'" by (cases k) auto
  have prev: "tp ! k' = correct_upto rs k'"
    using assms(1) by (simp add: tp_fp_inv_def acc k)
  show ?thesis
    using assms prev
    by (auto simp add: tp_fp_inv_def acc tp_fp_step_def Let_def k correct_upto_Suc
        nth_list_update less_Suc_eq)
qed

lemma tp_fp_fold_inv:
  assumes "tp_fp_inv rs 1 init" "1 \<le> k" "k \<le> length rs"
  shows "tp_fp_inv rs k (fold (tp_fp_step rs) [1..<k] init)"
  using assms(2,3)
proof (induction k)
  case 0
  then show ?case by simp
next
  case (Suc k)
  show ?case
  proof (cases "k = 0")
    case True
    then show ?thesis using assms(1) by simp
  next
    case False
    then have "tp_fp_inv rs k (fold (tp_fp_step rs) [1..<k] init)"
      using Suc by simp
    then show ?thesis
      using False Suc.prems by (simp add: tp_fp_step_inv)
  qed
qed

lemma calculate_tp_fp_inv:
  assumes "object_results \<noteq> []"
  shows "\<exists>tp fp. calculate_tp_fp object_results n = ([], Inr (tp, fp)) \<and>
           tp_fp_inv object_results (length object_results) (tp, fp)"
proof -
  let ?n = "length object_results"
  let ?init = "(if is_label_correct (object_results ! 0)
                then ((replicate ?n (0::int))[0 := 1], (replicate ?n (0::int))[0 := 0])
                else ((replicate ?n (0::int))[0 := 0], (replicate ?n (0::int))[0 := 1]))"
  have pos: "0 < ?n" using assms by simp
  have init: "tp_fp_inv object_results 1 ?init"
    using pos assms by (simp add: tp_fp_inv_def correct_upto_0)
  have "tp_fp_inv object_results ?n (fold (tp_fp_step object_results) [1..<?n] ?init)"
    using pos by (intro tp_fp_fold_inv [OF init]) arith+
  moreover have "calculate_tp_fp object_results n =
      ([], Inr (fold (tp_fp_step object_results) [1..<?n] ?init))"
    using pos by (simp add: calculate_tp_fp_def py_index_def Let_def)
  ultimately show ?thesis
    by (metis surj_pair)
qed

text \<open>
  Claim C3. For a non-empty list of object results, \<open>_calculate_tp_fp\<close> logs nothing,
  raises nothing and returns two lists of the length of its input: at every index \<open>i\<close>
  the first holds the number of results at positions \<open>0..i\<close> whose label is correct, the
  second \<open>(i + 1)\<close> minus that number. For the labels \<open>[True, False, True, True]\<close> it
  returns \<open>[1, 1, 2, 3]\<close> and \<open>[0, 1, 1, 1]\<close>. The ground-truth count plays no part.
\<close>

theorem calculate_tp_fp_cumulative:
  "(object_results \<noteq> [] \<longrightarrow>
      calculate_tp_fp object_results n =
        ([], Inr (map (correct_upto object_results) [0..<length object_results],
                  map (\<lambda>i. int i + 1 - correct_upto object_results i)
                      [0..<length object_results]))) \<and>
   calculate_tp_fp
     [\<lparr>is_label_correct = True\<rparr>, \<lparr>is_label_correct = False\<rparr>,
      \<lparr>is_label_correct = True\<rparr>, \<lparr>is_label_correct = True\<rparr>] m
   = ([], Inr ([1, 1, 2, 3], [0, 1, 1, 1]))"
proof (intro conjI impI)
  assume ne: "object_results \<noteq> []"
  from calculate_tp_fp_inv [OF ne, of n] obtain tp fp where
    res: "calculate_tp_fp object_results n = ([], Inr (tp, fp))" and
    inv: "tp_fp_inv object_results (length object_results) (tp, fp)"
    by blast
  have "tp = map (correct_upto object_results) [0..<length object_results]"
    using inv by (intro nth_equalityI) (simp_all add: tp_fp_inv_def)
  moreover have "fp = map (\<lambda>i. int i + 1 - correct_upto object_results i)
                          [0..<length object_results]"
    using inv by (intro nth_equalityI) (simp_all add: tp_fp_inv_def)
  ultimately show "calculate_tp_fp object_results n =
        ([], Inr (map (correct_upto object_results) [0..<length object_results],
                  map (\<lambda>i. int i + 1 - correct_upto object_results i)
                      [0..<length object_results]))"
    using res by simp
next
  show "calculate_tp_fp
     [\<lparr>is_label_correct = True\<rparr>, \<lparr>is_label_correct = False\<rparr>,
      \<lparr>is_label_correct = True\<rparr>, \<lparr>is_label_correct = True\<rparr>] m
   = ([], Inr ([1, 1, 2, 3], [0, 1, 1, 1]))"
    by (simp add: calculate_tp_fp_def py_index_def Let_def tp_fp_step_def
        upt_rec [of 1] upt_rec [of 2] upt_rec [of 3] upt_rec [of 4])
qed

theorem calculate_tp_fp_cumulative_witness:
  "calculate_tp_fp [\<lparr>is_label_correct = False\<rparr>, \<lparr>is_label_correct = True\<rparr>,
                    \<lparr>is_label_correct = False\<rparr>] 2
   = ([], Inr ([0, 1, 1], [1, 1, 2]))"
  using calculate_tp_fp_cumulative
    [of "[\<lparr>is_label_correct = False\<rparr>, \<lparr>is_label_correct = True\<rparr>,
          \<lparr>is_label_correct = False\<rparr>]" 2]
  by (simp add: correct_upto_def upt_rec [of 0] upt_rec [of 1] upt_rec [of 2] upt_rec [of 3])

text \<open>
  Claim C9. For a non-empty list of object results the two lists returned by
  \<open>_calculate_tp_fp\<close> satisfy \<open>tp[i] + fp[i] = i + 1\<close> at every index, each step of
  \<open>tp\<close> adds 0 or 1, and \<open>tp\<close> is non-decreasing.
\<close>

theorem calculate_tp_fp_invariants:
  assumes "object_results \<noteq> []"
  shows "\<exists>tp fp. calculate_tp_fp object_results n = ([], Inr (tp, fp)) \<and>
           length tp = length object_results \<and> length fp = length object_results \<and>
           (\<forall>i<length object_results. tp ! i + fp ! i = int i + 1) \<and>
           (\<forall>i. Suc i < length object_results \<longrightarrow>
                  tp ! Suc i = tp ! i \<or> tp ! Suc i = tp ! i + 1) \<and>
           (\<forall>i j. i \<le> j \<and> j < length object_results \<longrightarrow> tp ! i \<le> tp ! j)"
proof -
  from calculate_tp_fp_inv [OF assms, of n] obtain tp fp where
    res: "calculate_tp_fp object_results n = ([], Inr (tp, fp))" and
    inv: "tp_fp_inv object_results (length object_results) (tp, fp)"
    by blast
  have len: "length tp = length object_results" "length fp = length object_results"
    using inv by (simp_all add: tp_fp_inv_def)
  have tp: "tp ! i = correct_upto object_results i" if "i < length object_results" for i
    using inv that by (simp add: tp_fp_inv_def)
  have fp: "fp ! i = int i + 1 - tp ! i" if "i < length object_results" for i
    using inv that by (simp add: tp_fp_inv_def)
  have sum: "\<forall>i<length object_results. tp ! i + fp ! i = int i + 1"
    using fp by simp
  have step: "\<forall>i. Suc i < length object_results \<longrightarrow>
                  tp ! Suc i = tp ! i \<or> tp ! Suc i = tp ! i + 1"
    using tp by (simp add: correct_upto_Suc)
  have mono: "\<forall>i j. i \<le> j \<and> j < length object_results \<longrightarrow> tp ! i \<le> tp ! j"
    using tp by (simp add: correct_upto_mono)
  show ?thesis
    using res len sum step mono by blast
qed

theorem calculate_tp_fp_invariants_witness:
  "[\<lparr>is_label_correct = True\<rparr>, \<lparr>is_label_correct = False\<rparr>, \<lparr>is_label_correct = True\<rparr>] \<noteq> [] \<and>
   (\<exists>tp fp. calculate_tp_fp
       [\<lparr>is_label_correct = True\<rparr>, \<lparr>is_label_correct = False\<rparr>, \<lparr>is_label_correct = True\<rparr>] 5
         = ([], Inr (tp, fp)) \<and>
      tp ! 0 + fp ! 0 = 1 \<and> tp ! 1 + fp ! 1 = 2 \<and> tp ! 2 + fp ! 2 = 3 \<and>
      tp ! 0 \<le> tp ! 1 \<and> tp ! 1 \<le> tp ! 2)"
proof -
  have ne: "[\<lparr>is_label_correct = True\<rparr>, \<lparr>is_label_correct = False\<rparr>,
             \<lparr>is_label_correct = True\<rparr>] \<noteq> []"
    by simp
  from calculate_tp_fp_invariants [OF ne, of 5] obtain tp fp where
    res: "calculate_tp_fp
       [\<lparr>is_label_correct = True\<rparr>, \<lparr>is_label_correct = False\<rparr>, \<lparr>is_label_correct = True\<rparr>] 5
         = ([], Inr (tp, fp))" and
    sum: "\<forall>i<3. tp ! i + fp ! i = int i + 1" and
    mono: "\<forall>i j. i \<le> j \<and> j < 3 \<longrightarrow> tp ! i \<le> tp ! j"
    by auto
  have "tp ! 0 + fp ! 0 = 1" "tp ! 1 + fp ! 1 = 2" "tp ! 2 + fp ! 2 = 3"
    using sum by force+
  moreover have "tp ! 0 \<le> tp ! 1" "tp ! 1 \<le> tp ! 2"
    using mono by force+
  ultimately show ?thesis using res ne by blast
qed


section \<open>The precision/recall lists\<close>

lemma precision_recall_loop_fold:
  "precision_recall_loop tp gt idx (ps, rs) =
     Inr (fold (\<lambda>i xs. xs[i := real_of_int (tp ! i) / real (i + 1)]) idx ps,
          fold (\<lambda>i xs. xs[i := (if gt > 0 then real_of_int (tp ! i) / real_of_int gt else 0)]) idx rs)"
  by (induction idx arbitrary: ps rs) (simp_all add: py_truediv_def)

lemma fold_update_nth:
  "k \<le> length xs \<Longrightarrow>
   length (fold (\<lambda>i ys. ys[i := f i]) [0..<k] xs) = length xs \<and>
   (\<forall>j<length xs. fold (\<lambda>i ys. ys[i := f i]) [0..<k] xs ! j = (if j < k then f j else xs ! j))"
  by (induction k) (auto simp: nth_list_update less_Suc_eq)

lemma fold_update_all:
  "fold (\<lambda>i ys. ys[i := f i]) [0..<length xs] xs = map f [0..<length xs]"
  using fold_update_nth [of "length xs" xs f]
  by (intro nth_equalityI) simp_all

text \<open>
  Claim C8. \<open>get_precision_recall_list\<close> returns, for every list \<open>tp\<close> and every
  ground-truth count, two lists of the length of \<open>tp\<close> with
  \<open>precision[i] = tp[i] / (i + 1)\<close> and \<open>recall[i] = tp[i] / ground_truth_objects_num\<close>
  when that count is positive, \<open>0\<close> otherwise. The result is always \<open>Inr\<close>: neither
  division meets a zero divisor. The function is pure: it returns fresh lists.
\<close>

theorem get_precision_recall_list_total:
  "get_precision_recall_list tp gt =
     Inr (map (\<lambda>i. real_of_int (tp ! i) / real (i + 1)) [0..<length tp],
          map (\<lambda>i. if gt > 0 then real_of_int (tp ! i) / real_of_int gt else 0)
              [0..<length tp])"
proof -
  let ?zeros = "replicate (length tp) (0::real)"
  have "fold (\<lambda>i ys. ys[i := f i]) [0..<length tp] ?zeros = map f [0..<length tp]"
    for f :: "nat \<Rightarrow> real"
    using fold_update_all [of f ?zeros] by simp
  then show ?thesis
    by (simp add: get_precision_recall_list_def precision_recall_loop_fold)
qed

section \<open>Average precision\<close>

lemma envelope_loop_walk:
  assumes "\<forall>i\<in>set idx. i < length p" "length mp = length mr" "mp \<noteq> []"
  shows "\<exists>mp' mr'. envelope_loop p r idx (mp, mr) = Inr (mp', mr') \<and>
           length mp' = length mr' \<and> mp' \<noteq> [] \<and>
           zip mp' mr' = envelope_walk (map (\<lambda>i. (p ! i, r ! i)) idx) (zip mp mr)"
  using assms
proof (induction idx arbitrary: mp mr)
  case Nil
  then show ?case by simp
next
  case (Cons i idx)
  have mr: "mr \<noteq> []" using Cons.prems by auto
  have last: "fst (last (zip mp mr)) = last mp"
    using Cons.prems mr by (simp add: last_zip)
  have idx: "py_index p (int i) = Inr (p ! i)"
    using Cons.prems by (simp add: py_index_def)
  show ?case
  proof (cases "p ! i > last mp")
    case True
    from Cons.IH [of "mp @ [p ! i]" "mr @ [r ! i]"] Cons.prems
    show ?thesis using True last idx by simp
  next
    case False
    from Cons.IH [of mp mr] Cons.prems
    show ?thesis using False last idx by simp
  qed
qed

lemma butlast_upt_0: "butlast [0..<n] = [0..<n - 1]"
  by (cases n) simp_all

lemma tl_rev_butlast: "tl (rev xs) = rev (butlast xs)"
  by (induction xs rule: rev_induct) simp_all

lemma envelope_area_zip:
  assumes "length xs = length ys"
  shows "envelope_area (zip xs ys) =
           sum_list (map (\<lambda>i. xs ! i * (ys ! i - ys ! (i + 1))) [0..<length xs - 1])"
proof -
  have "fst (zip xs ys ! k) * (snd (zip xs ys ! k) - snd (zip xs ys ! (k + 1))) =
        xs ! k * (ys ! k - ys ! (k + 1))" if "k < length xs - 1" for k
    using that assms by simp
  then show ?thesis
    unfolding envelope_area_def using assms
    by (intro arg_cong [where f = sum_list]) simp
qed

lemma backward_samples:
  assumes "length p = length r" "p \<noteq> []"
  shows "map (\<lambda>i. (p ! i, r ! i)) (rev [0..<length r - 1]) = tl (rev (zip p r))"
proof -
  have z: "zip p r = map (\<lambda>i. (p ! i, r ! i)) [0..<length r]"
    using assms by (intro nth_equalityI) simp_all
  have "tl (rev (zip p r)) = rev (butlast (zip p r))"
    by (rule tl_rev_butlast)
  also have "butlast (zip p r) = map (\<lambda>i. (p ! i, r ! i)) [0..<length r - 1]"
    by (subst z) (simp add: map_butlast [symmetric] butlast_upt_0)
  finally show ?thesis by (simp add: rev_map)
qed

lemma fold_add_sum_list:
  "fold (\<lambda>i (ap::real). ap + f i) idx a = a + sum_list (map f idx)"
  by (induction idx arbitrary: a) simp_all

lemma calculate_ap_is_envelope_area:
  assumes "precision_list \<noteq> []" "length recall_list = length precision_list"
  shows "calculate_ap precision_list recall_list =
           Inr (envelope_area (interpolated_envelope (zip precision_list recall_list)))"
proof -
  let ?p = precision_list and ?r = recall_list
  have rne: "?r \<noteq> []" using assms by auto
  have pl: "py_index ?p (- 1) = Inr (last ?p)"
    using assms(1) by (simp add: py_index_def last_conv_nth nat_diff_distrib')
  have rl: "py_index ?r (- 1) = Inr (last ?r)"
    using rne by (simp add: py_index_def last_conv_nth nat_diff_distrib')
  have "\<forall>i\<in>set (rev [0..<length ?r - 1]). i < length ?p"
    using assms by auto
  from envelope_loop_walk [OF this, of "[last ?p]" "[last ?r]" ?r]
  obtain mp mr where
    loop: "envelope_loop ?p ?r (rev [0..<length ?r - 1]) ([last ?p], [last ?r]) = Inr (mp, mr)" and
    len: "length mp = length mr" and ne: "mp \<noteq> []" and
    walk: "zip mp mr = envelope_walk (map (\<lambda>i. (?p ! i, ?r ! i)) (rev [0..<length ?r - 1]))
                         [(last ?p, last ?r)]"
    by auto
  have hd: "hd (rev (zip ?p ?r)) = (last ?p, last ?r)"
    using assms rne by (simp add: hd_rev last_zip)
  have mrne: "mr \<noteq> []" using len ne by auto
  have "envelope_walk (tl (rev (zip ?p ?r))) [hd (rev (zip ?p ?r))] = zip mp mr"
    using walk backward_samples [of ?p ?r] assms hd by simp
  then have env: "interpolated_envelope (zip ?p ?r) = zip (mp @ [last mp]) (mr @ [0])"
    using len ne mrne by (simp add: interpolated_envelope_def Let_def last_zip)
  have "envelope_area (zip (mp @ [last mp]) (mr @ [0])) =
        sum_list (map (\<lambda>i. (mp @ [last mp]) ! i * ((mr @ [0]) ! i - (mr @ [0]) ! (i + 1)))
                      [0..<length (mp @ [last mp]) - 1])"
    using len by (intro envelope_area_zip) simp
  then show ?thesis
    using assms(1) pl rl loop env
    by (simp add: calculate_ap_def Let_def fold_add_sum_list del: upt_Suc)
qed

lemma calculate_ap_example:
  "calculate_ap [1, 0.5, 0.667, 0.75] [0.25, 0.25, 0.5, 0.75] = Inr 0.625"
  by (simp add: calculate_ap_def py_index_def Let_def upt_rec [of 0] upt_rec [of 1]
        upt_rec [of 2] upt_rec [of 3])

text \<open>
  Claim C4. For non-empty precision and recall lists of the same length (the parallel
  lists of one precision/recall curve), \<open>_calculate_ap\<close> raises nothing and returns the
  area of the interpolated envelope of the samples, built backward from the last sample
  as the specification describes. For the precision list \<open>[1.0, 0.5, 0.667, 0.75]\<close> and
  the recall list \<open>[0.25, 0.25, 0.5, 0.75]\<close> it returns \<open>0.625\<close>.
\<close>

theorem calculate_ap_envelope:
  "(precision_list \<noteq> [] \<and> length recall_list = length precision_list \<longrightarrow>
      calculate_ap precision_list recall_list =
        Inr (envelope_area (interpolated_envelope (zip precision_list recall_list)))) \<and>
   calculate_ap [1, 0.5, 0.667, 0.75] [0.25, 0.25, 0.5, 0.75] = Inr 0.625"
  using calculate_ap_is_envelope_area [of precision_list recall_list] calculate_ap_example
  by blast

theorem calculate_ap_envelope_witness:
  "calculate_ap [1, 0.5] [0.5, 1] = Inr 0.75"
  using calculate_ap_envelope [of "[1, 0.5]" "[0.5, 1]"]
  by (simp add: interpolated_envelope_def envelope_area_def)

section \<open>Empty inputs of the AP construction\<close>

lemma calculate_tp_fp_empty_nonzero:
  "n \<noteq> 0 \<Longrightarrow> calculate_tp_fp [] n = ([''The size of object_results is 0''], Inr ([], []))"
  by (simp add: calculate_tp_fp_def)

lemma calculate_tp_fp_empty_zero: "calculate_tp_fp [] 0 = ([], Inl IndexError)"
  by (simp add: calculate_tp_fp_def py_index_def)

lemma Ap_init_no_results_no_ground_truth:
  assumes "ftp object_results labels mode threshold = []"
    and "fgt ground_truth_objects labels = []"
  shows "Ap_init ftp fgt object_results ground_truth_objects labels mode threshold
           = ([], Inl IndexError)"
  using assms by (simp add: Ap_init_def calculate_tp_fp_empty_zero)

lemma Ap_init_no_results_some_ground_truth:
  assumes "ftp object_results labels mode threshold = []"
    and "fgt ground_truth_objects labels \<noteq> []"
  shows "Ap_init ftp fgt object_results ground_truth_objects labels mode threshold
           = ([''The size of object_results is 0''],
              Inr \<lparr>Ap.target_labels = labels, Ap.matching_mode = mode,
                   Ap.matching_threshold = threshold,
                   ground_truth_objects_num = int (length (fgt ground_truth_objects labels)),
                   tp_list = [], fp_list = [], ap = 0\<rparr>)"
  using assms
  by (simp add: Ap_init_def calculate_tp_fp_empty_nonzero get_precision_recall_list_def
      calculate_ap_def)

text \<open>
  Claim C2, at the input where it fails. With no object result and a ground-truth count
  of zero, \<open>_calculate_tp_fp\<close> passes its guard (which asks for a non-zero count) and
  reads \<open>object_results[0]\<close>: it raises \<open>IndexError\<close>, and so does the construction of
  an \<open>Ap\<close> from no object results and no ground-truth objects. (With a non-zero count
  the lemmas above give the empty lists, the warning and \<open>ap = 0\<close>.)
\<close>

theorem Ap_init_empty_zero_raises:
  "calculate_tp_fp [] 0 = ([], Inl IndexError) \<and>
   Ap_init example_filter_tp_objects example_filter_ground_truth_objects [] [] [l] mode threshold
     = ([], Inl IndexError)"
  by (simp add: calculate_tp_fp_empty_zero Ap_init_no_results_no_ground_truth
      example_filter_tp_objects_def example_filter_ground_truth_objects_def)

section \<open>Mean average precision\<close>

text \<open>
  Claim C7. With an empty list of target labels the constructor of \<open>Map\<close> logs the
  warning and returns at once: it raises nothing and sets neither \<open>aps\<close> nor \<open>map\<close>
  (nor \<open>map_config\<close>).
\<close>

theorem Map_init_empty_labels:
  "Map_init ftp fgt object_results ground_truth_objects [] mode threshold =
     ([''target_labels is empty ([])''], Inr \<lparr>map_config = None, aps = None, map_val = None\<rparr>)"
  by (simp add: Map_init_def)

text \<open>
  When the construction of every per-label \<open>Ap\<close> returns, the \<open>Map\<close> holds one \<open>Ap\<close>
  per label, each built for the one-label list, and the sum of their \<open>ap\<close> divided by
  the number of labels.
\<close>

lemma aps_loop_all:
  assumes "\<forall>l\<in>set labels. \<exists>a. snd (Ap_init ftp fgt ors gts [l] mode thr) = Inr a"
  shows "snd (aps_loop ftp fgt ors gts mode thr labels acc) =
           Inr (acc @ map (\<lambda>l. projr (snd (Ap_init ftp fgt ors gts [l] mode thr))) labels)"
  using assms
proof (induction labels arbitrary: acc)
  case Nil
  then show ?case by simp
next
  case (Cons l labels)
  then obtain msgs a where a: "Ap_init ftp fgt ors gts [l] mode thr = (msgs, Inr a)"
    by (cases "Ap_init ftp fgt ors gts [l] mode thr") auto
  from Cons have "snd (aps_loop ftp fgt ors gts mode thr labels (acc @ [a])) =
      Inr ((acc @ [a]) @ map (\<lambda>l. projr (snd (Ap_init ftp fgt ors gts [l] mode thr))) labels)"
    by simp
  then show ?case
    using a by (auto split: prod.splits)
qed

lemma fold_sum_ap: "fold (\<lambda>a s. s + Ap.ap a) xs z = z + sum_list (map Ap.ap xs)"
  by (induction xs arbitrary: z) simp_all

lemma Map_init_mean:
  assumes "labels \<noteq> []"
    and "\<forall>l\<in>set labels. \<exists>a. snd (Ap_init ftp fgt ors gts [l] mode thr) = Inr a"
  shows "snd (Map_init ftp fgt ors gts labels mode thr) =
           Inr \<lparr>map_config = Some \<lparr>MapConfig.target_labels = labels,
                                   MapConfig.matching_mode = mode,
                                   MapConfig.matching_threshold = thr\<rparr>,
                aps = Some (map (\<lambda>l. projr (snd (Ap_init ftp fgt ors gts [l] mode thr))) labels),
                map_val = Some (sum_list (map (\<lambda>l. Ap.ap (projr (snd (Ap_init ftp fgt ors gts [l] mode thr)))) labels)
                                / real (length labels))\<rparr>"
proof -
  from aps_loop_all [OF assms(2), of "[]"]
  obtain msgs where "aps_loop ftp fgt ors gts mode thr labels [] =
      (msgs, Inr (map (\<lambda>l. projr (snd (Ap_init ftp fgt ors gts [l] mode thr))) labels))"
    by (cases "aps_loop ftp fgt ors gts mode thr labels []") auto
  then show ?thesis
    using assms(1)
    by (simp add: Map_init_def Let_def fold_sum_ap py_truediv_def comp_def)
qed

lemma Ap_init_scenario_label0:
  "Ap_init example_filter_tp_objects example_filter_ground_truth_objects
     [\<lparr>is_label_correct = True, \<dots> = 0\<rparr>, \<lparr>is_label_correct = False, \<dots> = 0\<rparr>,
      \<lparr>is_label_correct = True, \<dots> = 0\<rparr>, \<lparr>is_label_correct = True, \<dots> = 0\<rparr>]
     [0, 0, 0, 0] [0] mode thr
   = ([], Inr \<lparr>Ap.target_labels = [0], Ap.matching_mode = mode, Ap.matching_threshold = thr,
              ground_truth_objects_num = 4, tp_list = [1, 1, 2, 3], fp_list = [0, 1, 1, 1],
              ap = 0.625\<rparr>)"
  by (simp add: Ap_init_def example_filter_tp_objects_def example_filter_ground_truth_objects_def
      calculate_tp_fp_def py_index_def Let_def tp_fp_step_def get_precision_recall_list_def
      py_truediv_def calculate_ap_def
      upt_rec [of 0] upt_rec [of 1] upt_rec [of 2] upt_rec [of 3] upt_rec [of 4])

lemma Map_init_scenario_mean:
  "Map_init example_filter_tp_objects example_filter_ground_truth_objects
     [\<lparr>is_label_correct = True, \<dots> = 0\<rparr>, \<lparr>is_label_correct = False, \<dots> = 0\<rparr>,
      \<lparr>is_label_correct = True, \<dots> = 0\<rparr>, \<lparr>is_label_correct = True, \<dots> = 0\<rparr>,
      \<lparr>is_label_correct = False, \<dots> = 1\<rparr>]
     [0, 0, 0, 0] [0, 1] CENTERDISTANCE 1
   = ([], Inr \<lparr>map_config = Some \<lparr>MapConfig.target_labels = [0, 1],
                                    MapConfig.matching_mode = CENTERDISTANCE,
                                    MapConfig.matching_threshold = 1\<rparr>,
               aps = Some [\<lparr>Ap.target_labels = [0], Ap.matching_mode = CENTERDISTANCE,
                            Ap.matching_threshold = 1, ground_truth_objects_num = 4,
                            tp_list = [1, 1, 2, 3], fp_list = [0, 1, 1, 1], ap = 0.625\<rparr>,
                           \<lparr>Ap.target_labels = [1], Ap.matching_mode = CENTERDISTANCE,
                            Ap.matching_threshold = 1, ground_truth_objects_num = 0,
                            tp_list = [0], fp_list = [1], ap = 0\<rparr>],
               map_val = Some 0.3125\<rparr>)"
  by (simp add: Map_init_def Ap_init_def example_filter_tp_objects_def
      example_filter_ground_truth_objects_def
      calculate_tp_fp_def py_index_def Let_def tp_fp_step_def get_precision_recall_list_def
      py_truediv_def calculate_ap_def
      upt_rec [of 0] upt_rec [of 1] upt_rec [of 2] upt_rec [of 3] upt_rec [of 4])

text \<open>
  Claim C5, at the input where it fails. Two target labels, \<open>0\<close> and \<open>1\<close>: label \<open>0\<close> has
  four ground-truth objects and four results with labels correct
  \<open>[True, False, True, True]\<close> (its \<open>ap\<close> is \<open>0.625\<close>); label \<open>1\<close> has no ground-truth
  object and no result. The construction of the \<open>Ap\<close> of label \<open>1\<close> raises \<open>IndexError\<close>,
  and with it the construction of the \<open>Map\<close>: no mean is computed. (With one incorrect
  result of label \<open>1\<close> added, the lemma above gives the mean \<open>0.3125\<close>.)
\<close>

theorem Map_init_absent_label_raises:
  "Map_init example_filter_tp_objects example_filter_ground_truth_objects
     [\<lparr>is_label_correct = True, \<dots> = 0\<rparr>, \<lparr>is_label_correct = False, \<dots> = 0\<rparr>,
      \<lparr>is_label_correct = True, \<dots> = 0\<rparr>, \<lparr>is_label_correct = True, \<dots> = 0\<rparr>]
     [0, 0, 0, 0] [0, 1] CENTERDISTANCE 1
   = ([], Inl IndexError)"
  by (simp add: Map_init_def Ap_init_scenario_label0 Ap_init_no_results_no_ground_truth
      example_filter_tp_objects_def example_filter_ground_truth_objects_def)

section \<open>MetricsScore: the detection evaluation\<close>

lemma evaluation_detection_plane_distance_with_center:
  "evaluation_detection ftp fgt
     (MetricsScore_init \<lparr>MetricsScoreConfig.target_labels = [],
                         map_thresholds_center_distance = [2],
                         map_thresholds_iou = [],
                         map_thresholds_plane_distance = [1]\<rparr>)
     object_results ground_truth_objects
   = (\<lparr>config = \<lparr>MetricsScoreConfig.target_labels = [],
                   map_thresholds_center_distance = [2],
                   map_thresholds_iou = [],
                   map_thresholds_plane_distance = [1]\<rparr>,
       maps_val = [\<lparr>map_config = None, aps = None, map_val = None\<rparr>,
                   \<lparr>map_config = None, aps = None, map_val = None\<rparr>]\<rparr>,
      [''target_labels is empty ([])'', ''target_labels is empty ([])''], None)"
  by (simp add: evaluation_detection_def MetricsScore_init_def and_then_def Map_init_def)

text \<open>
  Claim C1, at the input where it fails. The configuration has no center-distance
  threshold, no IoU threshold and one plane-distance threshold. The third block of
  \<open>_evaluation_detection\<close> tests \<open>map_thresholds_center_distance\<close> where the first two
  blocks test the list they iterate over, so the plane-distance loop is skipped: no
  \<open>Map\<close> is built, whatever the labels, the object results and the ground truth are.
  (With a center-distance threshold configured as well, the lemma above shows the
  plane-distance \<open>Map\<close> built.)
\<close>

theorem evaluation_detection_skips_plane_distance:
  "evaluation_detection ftp fgt
     (MetricsScore_init \<lparr>MetricsScoreConfig.target_labels = labels,
                         map_thresholds_center_distance = [],
                         map_thresholds_iou = [],
                         map_thresholds_plane_distance = [1]\<rparr>)
     object_results ground_truth_objects
   = (\<lparr>config = \<lparr>MetricsScoreConfig.target_labels = labels,
                   map_thresholds_center_distance = [],
                   map_thresholds_iou = [],
                   map_thresholds_plane_distance = [1]\<rparr>,
       maps_val = []\<rparr>, [], None)"
  by (simp add: evaluation_detection_def MetricsScore_init_def and_then_def)


section \<open>MetricsScore: evaluate only appends\<close>

lemma maps_loop_built:
  "maps_loop ftp fgt ors gts mode ts self =
     (case maps_built ftp fgt ors gts (MetricsScoreConfig.target_labels (config self)) mode ts of
        (ms, rest) \<Rightarrow> (self\<lparr>maps_val := maps_val self @ ms\<rparr>, rest))"
  by (induction ts arbitrary: self) (simp_all split: prod.splits sum.splits)

lemma appends_only_maps_loop:
  "appends_only (\<lambda>self. maps_loop ftp fgt ors gts mode (T (config self)) self)"
  unfolding appends_only_def
  by (rule exI [where x = "\<lambda>c. fst (maps_built ftp fgt ors gts
                                  (MetricsScoreConfig.target_labels c) mode (T c))"],
      rule exI [where x = "\<lambda>c. snd (maps_built ftp fgt ors gts
                                  (MetricsScoreConfig.target_labels c) mode (T c))"])
     (simp add: maps_loop_built split: prod.splits)

lemma appends_only_skip: "appends_only (\<lambda>self. (self, [], None))"
  unfolding appends_only_def
  by (rule exI [where x = "\<lambda>c. []"], rule exI [where x = "\<lambda>c. ([], None)"]) simp

lemma appends_only_guard:
  assumes "appends_only f"
  shows "appends_only (\<lambda>self. if P (config self) then f self else (self, [], None))"
proof -
  from assms obtain g h where
    f: "\<And>self. f self = (self\<lparr>maps_val := maps_val self @ g (config self)\<rparr>, h (config self))"
    unfolding appends_only_def by blast
  show ?thesis
    unfolding appends_only_def
    by (rule exI [where x = "\<lambda>c. if P c then g c else []"],
        rule exI [where x = "\<lambda>c. if P c then h c else ([], None)"])
       (simp add: f)
qed

lemma appends_only_and_then:
  assumes "appends_only f" "appends_only k"
  shows "appends_only (\<lambda>self. and_then (f self) k)"
proof -
  from assms(1) obtain g1 h1 where
    f: "\<And>self. f self = (self\<lparr>maps_val := maps_val self @ g1 (config self)\<rparr>, h1 (config self))"
    unfolding appends_only_def by blast
  from assms(2) obtain g2 h2 where
    k: "\<And>self. k self = (self\<lparr>maps_val := maps_val self @ g2 (config self)\<rparr>, h2 (config self))"
    unfolding appends_only_def by blast
  show ?thesis
    unfolding appends_only_def
    by (rule exI [where x = "\<lambda>c. case h1 c of (msgs, Some e) \<Rightarrow> g1 c
                                   | (msgs, None) \<Rightarrow> g1 c @ g2 c"],
        rule exI [where x = "\<lambda>c. case h1 c of (msgs, Some e) \<Rightarrow> (msgs, Some e)
                                   | (msgs, None) \<Rightarrow> (msgs @ fst (h2 c), snd (h2 c))"])
       (simp add: f k and_then_def split: prod.splits option.splits)
qed

lemma appends_only_evaluation_detection:
  "appends_only (\<lambda>self. evaluation_detection ftp fgt self ors gts)"
  unfolding evaluation_detection_def
  by (intro appends_only_and_then appends_only_guard [where P = "\<lambda>c. map_thresholds_center_distance c \<noteq> []"]
      appends_only_guard [where P = "\<lambda>c. map_thresholds_iou c \<noteq> []"] appends_only_maps_loop)

lemma appends_only_evaluate:
  "appends_only (\<lambda>self. evaluate ftp fgt self ors gts)"
  unfolding evaluate_def evaluation_tracking_def evaluation_prediction_def
  by (intro appends_only_and_then appends_only_evaluation_detection appends_only_skip)

lemma evaluate_fresh:
  "fst (evaluate ftp fgt self ors gts) =
     self\<lparr>maps_val := maps_val self @
            maps_val (fst (evaluate ftp fgt (MetricsScore_init (config self)) ors gts))\<rparr>"
proof -
  from appends_only_evaluate [of ftp fgt ors gts] obtain g h where
    e: "\<And>self. evaluate ftp fgt self ors gts =
          (self\<lparr>maps_val := maps_val self @ g (config self)\<rparr>, h (config self))"
    unfolding appends_only_def by blast
  show ?thesis
    by (simp add: e MetricsScore_init_def)
qed

lemma evaluate_calls_fresh:
  "evaluate_calls ftp fgt self calls =
     self\<lparr>maps_val := maps_val self @
            concat (map (\<lambda>(ors, gts).
                      maps_val (fst (evaluate ftp fgt (MetricsScore_init (config self)) ors gts)))
                    calls)\<rparr>"
proof (induction calls arbitrary: self)
  case Nil
  then show ?case by simp
next
  case (Cons call calls)
  obtain ors gts where call: "call = (ors, gts)" by (cases call)
  let ?self' = "fst (evaluate ftp fgt self ors gts)"
  have cfg: "config ?self' = config self"
    by (subst evaluate_fresh) simp
  have "evaluate_calls ftp fgt self (call # calls) = evaluate_calls ftp fgt ?self' calls"
    by (simp add: call)
  also have "\<dots> = ?self'\<lparr>maps_val := maps_val ?self' @
            concat (map (\<lambda>(ors, gts).
                      maps_val (fst (evaluate ftp fgt (MetricsScore_init (config self)) ors gts)))
                    calls)\<rparr>"
    by (subst Cons.IH) (simp add: cfg)
  also have "\<dots> = self\<lparr>maps_val := maps_val self @
            concat (map (\<lambda>(ors, gts).
                      maps_val (fst (evaluate ftp fgt (MetricsScore_init (config self)) ors gts)))
                    (call # calls))\<rparr>"
    by (subst (1 2) evaluate_fresh) (simp add: call)
  finally show ?case .
qed

text \<open>
  What holds of every call. Calls of \<open>evaluate\<close> on one object leave its configuration
  as it was, and after any sequence of calls the stored list of maps is the list stored
  before, followed by what each call appends, in the order of the calls; one call
  appends what the same call appends to a freshly constructed \<open>MetricsScore\<close> of the
  same configuration. Nothing stored is removed or changed.
\<close>

lemma evaluate_calls_append_only:
  "config (evaluate_calls ftp fgt self calls) = config self \<and>
   maps_val (evaluate_calls ftp fgt self calls) =
     maps_val self @
     concat (map (\<lambda>(object_results, ground_truth_objects).
               maps_val (fst (evaluate ftp fgt (MetricsScore_init (config self))
                                object_results ground_truth_objects)))
             calls) \<and>
   maps_val (evaluate_calls ftp fgt self (replicate k (object_results, ground_truth_objects))) =
     maps_val self @
     concat (replicate k
       (maps_val (fst (evaluate ftp fgt (MetricsScore_init (config self))
                         object_results ground_truth_objects))))"
  by (simp add: evaluate_calls_fresh [of ftp fgt self] case_prod_beta map_replicate_const)


lemma evaluate_plane_distance_only:
  "evaluate ftp fgt
     \<lparr>config = \<lparr>MetricsScoreConfig.target_labels = labels,
                  map_thresholds_center_distance = [],
                  map_thresholds_iou = [],
                  map_thresholds_plane_distance = [1]\<rparr>,
      maps_val = stored\<rparr>
     object_results ground_truth_objects
   = (\<lparr>config = \<lparr>MetricsScoreConfig.target_labels = labels,
                   map_thresholds_center_distance = [],
                   map_thresholds_iou = [],
                   map_thresholds_plane_distance = [1]\<rparr>,
       maps_val = stored\<rparr>, [], None)"
  by (simp add: evaluate_def evaluation_detection_def evaluation_tracking_def
      evaluation_prediction_def and_then_def)

text \<open>
  Claim C10, at the input where it fails. The configuration has no center-distance
  threshold, no IoU threshold and one plane-distance threshold, so one (mode, threshold)
  pair is configured and \<open>k\<close> calls of \<open>evaluate\<close> should leave \<open>k\<close> results with mode
  plane distance after the results stored before. The plane-distance loop is guarded by
  \<open>map_thresholds_center_distance\<close>, so each call appends nothing: after any sequence of
  calls the object is as it was, and \<open>k\<close> calls on a fresh object leave \<open>maps\<close> empty.
\<close>

theorem evaluate_calls_append_no_plane_distance:
  "evaluate_calls ftp fgt
     \<lparr>config = \<lparr>MetricsScoreConfig.target_labels = labels,
                  map_thresholds_center_distance = [],
                  map_thresholds_iou = [],
                  map_thresholds_plane_distance = [1]\<rparr>,
      maps_val = stored\<rparr>
     calls
   = \<lparr>config = \<lparr>MetricsScoreConfig.target_labels = labels,
                  map_thresholds_center_distance = [],
                  map_thresholds_iou = [],
                  map_thresholds_plane_distance = [1]\<rparr>,
      maps_val = stored\<rparr> \<and>
   maps_val (evaluate_calls ftp fgt
     (MetricsScore_init \<lparr>MetricsScoreConfig.target_labels = labels,
                         map_thresholds_center_distance = [],
                         map_thresholds_iou = [],
                         map_thresholds_plane_distance = [1]\<rparr>)
     (replicate k (object_results, ground_truth_objects))) = []"
proof -
  have all: "evaluate_calls ftp fgt
     \<lparr>config = \<lparr>MetricsScoreConfig.target_labels = labels,
                  map_thresholds_center_distance = [],
                  map_thresholds_iou = [],
                  map_thresholds_plane_distance = [1]\<rparr>,
      maps_val = ms\<rparr> cs
   = \<lparr>config = \<lparr>MetricsScoreConfig.target_labels = labels,
                  map_thresholds_center_distance = [],
                  map_thresholds_iou = [],
                  map_thresholds_plane_distance = [1]\<rparr>,
      maps_val = ms\<rparr>" for ms cs
    by (induction cs) (auto simp add: evaluate_plane_distance_only)
  show ?thesis
    by (simp add: all MetricsScore_init_def)
qed


section \<open>The pass/fail classifier\<close>

lemma critical_fp_loop_filter:
  "critical_fp_loop crit fps acc =
     acc @ filter (\<lambda>r. case crit of None \<Rightarrow> False
                        | Some objs \<Rightarrow> py_in (ground_truth_object r) objs) fps"
  by (induction fps arbitrary: acc) simp_all

lemma py_in_iff: "py_in x objs \<longleftrightarrow> (\<exists>g\<in>set objs. x = Some g)"
  by (auto simp: py_in_def)

text \<open>
  Claim C6. When \<open>leave_only_critical_fp\<close> is false, \<open>get_tp_fp_object_results\<close> returns
  the TP and FP lists of \<open>divide_tp_fp_objects\<close> as they are. When it is true, the TP
  list is still that of \<open>divide_tp_fp_objects\<close>; the FP list holds exactly the FP results
  (in their order) whose ground-truth object is a member of the critical ground-truth
  list; it is empty when the critical list is \<open>None\<close>; and it never holds a result with
  no ground-truth object.
\<close>

theorem get_tp_fp_object_results_critical:
  "(\<not> leave_only_critical_fp (frame_pass_fail_config self) \<longrightarrow>
      get_tp_fp_object_results divide_tp_fp_objects self object_results crit =
        divide_tp_fp_objects object_results
          (PerceptionPassFailConfig.target_labels (frame_pass_fail_config self))
          (PerceptionPassFailConfig.matching_mode (frame_pass_fail_config self))
          (matching_threshold_list (frame_pass_fail_config self))) \<and>
   (leave_only_critical_fp (frame_pass_fail_config self) \<longrightarrow>
      fst (get_tp_fp_object_results divide_tp_fp_objects self object_results crit) =
        fst (divide_tp_fp_objects object_results
          (PerceptionPassFailConfig.target_labels (frame_pass_fail_config self))
          (PerceptionPassFailConfig.matching_mode (frame_pass_fail_config self))
          (matching_threshold_list (frame_pass_fail_config self))) \<and>
      snd (get_tp_fp_object_results divide_tp_fp_objects self object_results (Some objs)) =
        filter (\<lambda>r. \<exists>g\<in>set objs. ground_truth_object r = Some g)
          (snd (divide_tp_fp_objects object_results
            (PerceptionPassFailConfig.target_labels (frame_pass_fail_config self))
            (PerceptionPassFailConfig.matching_mode (frame_pass_fail_config self))
            (matching_threshold_list (frame_pass_fail_config self)))) \<and>
      snd (get_tp_fp_object_results divide_tp_fp_objects self object_results None) = [] \<and>
      (\<forall>r\<in>set (snd (get_tp_fp_object_results divide_tp_fp_objects self object_results crit)).
          ground_truth_object r \<noteq> None))"
  by (cases crit)
     (auto simp add: get_tp_fp_object_results_def critical_fp_loop_filter py_in_iff
       split: prod.splits)

theorem get_tp_fp_object_results_critical_witness:
  "get_tp_fp_object_results (\<lambda>rs labels mode thresholds. ([], rs))
     \<lparr>frame_pass_fail_config =
        \<lparr>PerceptionPassFailConfig.target_labels = [0::nat],
         PerceptionPassFailConfig.matching_mode = CENTERDISTANCE,
         matching_threshold_list = [1::real], leave_only_critical_fp = False\<rparr>\<rparr>
     [\<lparr>ground_truth_object = Some (1::nat)\<rparr>, \<lparr>ground_truth_object = None\<rparr>,
      \<lparr>ground_truth_object = Some 2\<rparr>] (Some [1])
   = ([], [\<lparr>ground_truth_object = Some 1\<rparr>, \<lparr>ground_truth_object = None\<rparr>,
           \<lparr>ground_truth_object = Some 2\<rparr>]) \<and>
   snd (get_tp_fp_object_results (\<lambda>rs labels mode thresholds. ([], rs))
     \<lparr>frame_pass_fail_config =
        \<lparr>PerceptionPassFailConfig.target_labels = [0::nat],
         PerceptionPassFailConfig.matching_mode = CENTERDISTANCE,
         matching_threshold_list = [1::real], leave_only_critical_fp = True\<rparr>\<rparr>
     [\<lparr>ground_truth_object = Some (1::nat)\<rparr>, \<lparr>ground_truth_object = None\<rparr>,
      \<lparr>ground_truth_object = Some 2\<rparr>] (Some [1]))
   = [\<lparr>ground_truth_object = Some 1\<rparr>] \<and>
   snd (get_tp_fp_object_results (\<lambda>rs labels mode thresholds. ([], rs))
     \<lparr>frame_pass_fail_config =
        \<lparr>PerceptionPassFailConfig.target_labels = [0::nat],
         PerceptionPassFailConfig.matching_mode = CENTERDISTANCE,
         matching_threshold_list = [1::real], leave_only_critical_fp = True\<rparr>\<rparr>
     [\<lparr>ground_truth_object = Some (1::nat)\<rparr>, \<lparr>ground_truth_object = None\<rparr>,
      \<lparr>ground_truth_object = Some 2\<rparr>] None)
   = []"
  using
    get_tp_fp_object_results_critical
      [of "\<lparr>frame_pass_fail_config =
              \<lparr>PerceptionPassFailConfig.target_labels = [0::nat],
               PerceptionPassFailConfig.matching_mode = CENTERDISTANCE,
               matching_threshold_list = [1::real], leave_only_critical_fp = False\<rparr>\<rparr>"
          "\<lambda>rs labels mode thresholds. ([], rs)"
          "[\<lparr>ground_truth_object = Some (1::nat)\<rparr>, \<lparr>ground_truth_object = None\<rparr>,
            \<lparr>ground_truth_object = Some 2\<rparr>]" "Some [1]" "[1]"]
    get_tp_fp_object_results_critical
      [of "\<lparr>frame_pass_fail_config =
              \<lparr>PerceptionPassFailConfig.target_labels = [0::nat],
               PerceptionPassFailConfig.matching_mode = CENTERDISTANCE,
               matching_threshold_list = [1::real], leave_only_critical_fp = True\<rparr>\<rparr>"
          "\<lambda>rs labels mode thresholds. ([], rs)"
          "[\<lparr>ground_truth_object = Some (1::nat)\<rparr>, \<lparr>ground_truth_object = None\<rparr>,
            \<lparr>ground_truth_object = Some 2\<rparr>]" "Some [1]" "[1]"]
  by simp

end
